theory Spec2Isabelle
  imports Complex_Main "HOL-Library.AList" "HOL-Library.Sublist"
begin

section \<open>Python values read by the catalog code\<close>

text \<open>
  A Python \<open>str\<close> is a sequence of code points and \<open>len\<close> counts code points, so a string
  is a list of code points. An item identifier (\<open>product_id\<close>) is a JSON integer; Python
  treats the integer 0 as false.
\<close>

type_synonym str = "nat list"
type_synonym ident = int

text \<open>
  A Python \<open>dict\<close> keeps its keys in insertion order; assigning to a key that is present
  replaces the value in place, assigning to a new key appends. That is an association list
  under \<open>AList.update\<close>; \<open>d.get(k)\<close> is \<open>map_of d k\<close> and \<open>len(d)\<close> is \<open>length d\<close>.
\<close>

type_synonym ('k, 'v) dict = "('k \<times> 'v) list"

datatype exn = Timeout | ConnectionError | OtherError

text \<open>
  The outcome of one \<open>requests.post\<close> together with the decoding of its body:
  either an exception, or a status code with the decoded body. The body is read only
  when the status is 200.
\<close>

datatype 'a reply = Raise exn | Reply nat 'a

text \<open>
  The value of a price field (\<open>price\<close> or \<open>old_price\<close>), by what the code observes of it:
  its truth value and the result of \<open>int(float(v))\<close>.
  \<^item> \<open>PNone\<close>: the key is absent, or the value is \<open>null\<close>, \<open>''\<close>, \<open>false\<close>, \<open>[]\<close> or \<open>{}\<close>;
  \<^item> \<open>PNum r\<close>: a JSON number whose \<open>float\<close> is the finite value \<open>r\<close> (\<open>true\<close> is \<open>PNum 1\<close>);
  \<^item> \<open>PText r\<close>: a string that \<open>float\<close> reads as the finite value \<open>r\<close>;
  \<^item> \<open>PBad\<close>: a true value on which \<open>int(float(v))\<close> raises (a string that is not a
    number, \<open>'nan'\<close>, \<open>'inf'\<close>, a non-empty list or object).
\<close>

datatype pyval = PNone | PNum rat | PText rat | PBad

fun truthy :: "pyval \<Rightarrow> bool" where
  "truthy PNone = False"
| "truthy (PNum r) = (r \<noteq> 0)"
| "truthy (PText r) = True"
| "truthy PBad = True"

text \<open>\<open>int\<close> of a float truncates towards zero.\<close>

definition py_int :: "rat \<Rightarrow> int" where
  "py_int r = (if 0 \<le> r then \<lfloor>r\<rfloor> else \<lceil>r\<rceil>)"

fun int_float :: "pyval \<Rightarrow> exn + int" where
  "int_float (PNum r) = Inr (py_int r)"
| "int_float (PText r) = Inr (py_int r)"
| "int_float PNone = Inl OtherError"
| "int_float PBad = Inl OtherError"

section \<open>Records of the three remote sources and the merged product\<close>

record listing_item =
  li_product_id :: "ident option"
  li_offer_id :: "str option"

text \<open>
  The \<open>'price'\<close> entry of a price item: the key is missing (\<open>get\<close> gives \<open>{}\<close>), the value
  is not an object, or it is an object with the fields \<open>price\<close> and \<open>old_price\<close>.
\<close>

datatype price_field = PriceMissing | PriceNotDict | PriceInfo pyval pyval

record price_item =
  pi_product_id :: "ident option"
  pi_price :: price_field

text \<open>
  The \<open>description\<close> entry of a description result, which the code stores without
  looking at its type:
  \<^item> \<open>DText s\<close>: the string \<open>s\<close> (a missing key reads as the empty string);
  \<^item> \<open>DFalsy\<close>: another false value (\<open>null\<close>, \<open>0\<close>, \<open>false\<close>, \<open>[]\<close>, \<open>{}\<close>);
  \<^item> \<open>DOther\<close>: a true value that is not a string (a number, \<open>true\<close>, a non-empty list
    or object), on which \<open>re.sub\<close> raises.
\<close>

datatype description_value = DText str | DFalsy | DOther

fun description_truthy :: "description_value \<Rightarrow> bool" where
  "description_truthy (DText s) = (s \<noteq> [])"
| "description_truthy DFalsy = False"
| "description_truthy DOther = True"

record description_record =
  d_name :: str
  d_description :: description_value

record product =
  p_product_id :: ident
  p_offer_id :: "str option"
  p_name :: str
  p_price :: int
  p_description :: str
  p_quantity :: int

type_synonym prices_data = "(ident option, price_item) dict"
type_synonym descriptions_data = "(ident, description_record) dict"
type_synonym cache = "(int, product) dict"

text \<open>
  The remote marketplace and the configuration, as the code meets them: whether both
  credentials are set, the reply to the listing call for a given limit, the reply to the
  \<open>k\<close>-th price request (with the identifiers it carries) and the reply to the \<open>k\<close>-th
  description request. The body of a description reply is its non-empty \<open>result\<close>
  object, if any.
\<close>

record world =
  credentials :: bool
  list_reply :: "nat \<Rightarrow> listing_item list reply"
  prices_reply :: "nat \<Rightarrow> ident list \<Rightarrow> price_item list reply"
  descr_reply :: "nat \<Rightarrow> ident \<Rightarrow> description_record option reply"

section \<open>Price resolution\<close>

text \<open>
  One of the two blocks of \<open>_extract_price_from_v5\<close>:
  \<open>if v: price_int = int(float(v)); if price_int > 0: return price_int\<close>.
  \<open>Inr (Some n)\<close> is the return of \<open>n\<close>, \<open>Inr None\<close> falls through, \<open>Inl\<close> is the exception.
\<close>

definition usable_price :: "pyval \<Rightarrow> exn + int option" where
  "usable_price v =
     (if truthy v then
        (case int_float v of
           Inl e \<Rightarrow> Inl e
         | Inr price_int \<Rightarrow> if price_int > 0 then Inr (Some price_int) else Inr None)
      else Inr None)"

definition price_from :: "pyval \<Rightarrow> pyval \<Rightarrow> exn + int" where
  "price_from main_price old_price =
     (case usable_price main_price of
        Inl e \<Rightarrow> Inl e
      | Inr (Some n) \<Rightarrow> Inr n
      | Inr None \<Rightarrow>
          (case usable_price old_price of
             Inl e \<Rightarrow> Inl e
           | Inr (Some n) \<Rightarrow> Inr n
           | Inr None \<Rightarrow> Inr 0))"

text \<open>
  The argument is \<open>prices_data.get(product_id, {})\<close>: \<open>None\<close> stands for the empty
  default. Every exception of the body is caught and gives 0.
\<close>

definition extract_price_from_v5 :: "price_item option \<Rightarrow> int" where
  "extract_price_from_v5 po =
     (case po of
        None \<Rightarrow> 0
      | Some price_item \<Rightarrow>
          (case (case pi_price price_item of
                   PriceNotDict \<Rightarrow> Inr 0
                 | PriceMissing \<Rightarrow> price_from PNone PNone
                 | PriceInfo main_price old_price \<Rightarrow> price_from main_price old_price) of
             Inl e \<Rightarrow> 0
           | Inr n \<Rightarrow> n))"

section \<open>Sanitizing a description\<close>

text \<open>The characters that \<open>\s\<close> matches in a \<open>str\<close> pattern and that \<open>strip\<close> removes.\<close>

definition is_space :: "nat \<Rightarrow> bool" where
  "is_space c \<longleftrightarrow>
     (9 \<le> c \<and> c \<le> 13) \<or> (28 \<le> c \<and> c \<le> 32) \<or> c = 133 \<or> c = 160 \<or> c = 5760 \<or>
     (8192 \<le> c \<and> c \<le> 8202) \<or> c = 8232 \<or> c = 8233 \<or> c = 8239 \<or> c = 8287 \<or> c = 12288"

text \<open>
  Each matcher says whether its pattern matches at the start of the text and, if so,
  what is left after the match. Code points: \<open><\<close> 60, \<open>>\<close> 62, \<open>/\<close> 47, \<open>b\<close> 98,
  \<open>r\<close> 114, newline 10, \<open>.\<close> 46.
\<close>

text \<open>\<open><br\s*/?>\<close>\<close>

definition match_br :: "str \<Rightarrow> str option" where
  "match_br s =
     (case s of
        a # b # c # r \<Rightarrow>
          if a = 60 \<and> b = 98 \<and> c = 114 then
            (let r1 = dropWhile is_space r;
                 r2 = (case r1 of [] \<Rightarrow> r1 | x # t \<Rightarrow> if x = 47 then t else r1)
             in case r2 of [] \<Rightarrow> None | y # t \<Rightarrow> if y = 62 then Some t else None)
          else None
      | _ \<Rightarrow> None)"

text \<open>\<open><[^>]+>\<close>\<close>

definition match_tag :: "str \<Rightarrow> str option" where
  "match_tag s =
     (case s of
        [] \<Rightarrow> None
      | a # r \<Rightarrow>
          if a = 60 then
            (let body = takeWhile (\<lambda>c. c \<noteq> 62) r;
                 rest = dropWhile (\<lambda>c. c \<noteq> 62) r
             in if body \<noteq> [] \<and> rest \<noteq> [] then Some (tl rest) else None)
          else None)"

text \<open>
  \<open>\n\s*\n\<close>: the greedy \<open>\s*\<close> gives back characters until a newline follows, so the
  match ends at the last newline of the run of white space after the first newline.
\<close>

definition match_blank :: "str \<Rightarrow> str option" where
  "match_blank s =
     (case s of
        [] \<Rightarrow> None
      | a # r \<Rightarrow>
          if a = 10 then
            (let run = takeWhile is_space r;
                 rest = dropWhile is_space r
             in if 10 \<in> set run
                then Some (rev (takeWhile (\<lambda>c. c \<noteq> 10) (rev run)) @ rest)
                else None)
          else None)"

text \<open>
  \<open>re.sub\<close> for a pattern that never matches the empty string: scan from the left,
  replace each match and go on after it. The length test only serves termination; the
  three matchers above always consume at least one character.
\<close>

function re_sub :: "(str \<Rightarrow> str option) \<Rightarrow> str \<Rightarrow> str \<Rightarrow> str" where
  "re_sub m rep [] = []"
| "re_sub m rep (c # cs) =
     (case m (c # cs) of
        None \<Rightarrow> c # re_sub m rep cs
      | Some rest \<Rightarrow>
          if length rest \<le> length cs then rep @ re_sub m rep rest
          else c # re_sub m rep cs)"
  by pat_completeness auto
termination
  by (relation "measure (\<lambda>(m, rep, s). length s)") auto

definition strip :: "str \<Rightarrow> str" where
  "strip s = dropWhile is_space (rev (dropWhile is_space (rev s)))"

definition clean_description :: "str \<Rightarrow> str" where
  "clean_description description =
     (if description = [] then []
      else
        (let clean_text = re_sub match_br [10] description;
             clean_text = re_sub match_tag [] clean_text;
             clean_text = re_sub match_blank [10] clean_text
         in strip clean_text))"

section \<open>The marketplace client\<close>

text \<open>
  \<open>for i in range(0, len(product_ids), 50): batch_ids = product_ids[i:i+50]\<close>:
  the slices taken by the loop of \<open>_get_products_prices_v5\<close>, in order.
\<close>

function batches_from :: "nat \<Rightarrow> 'a list \<Rightarrow> 'a list list" where
  "batches_from i product_ids =
     (if i < length product_ids
      then take 50 (drop i product_ids) # batches_from (i + 50) product_ids
      else [])"
  by pat_completeness auto
termination
  by (relation "measure (\<lambda>(i, product_ids). length product_ids - i)") auto

declare batches_from.simps [simp del]

text \<open>\<open>for price_item in price_items: prices_data[price_item.get('product_id')] = price_item\<close>\<close>

definition store_prices :: "price_item list \<Rightarrow> prices_data \<Rightarrow> prices_data" where
  "store_prices price_items prices_data =
     foldl (\<lambda>acc price_item. AList.update (pi_product_id price_item) price_item acc)
       prices_data price_items"

text \<open>
  The loop over the batches. \<open>k\<close> numbers the requests, \<open>sent\<close> records the batches
  posted so far. A reply with another status than 200 is logged and the loop goes on;
  an exception leaves the loop.
\<close>

fun prices_loop ::
  "(nat \<Rightarrow> ident list \<Rightarrow> price_item list reply) \<Rightarrow> nat \<Rightarrow> ident list list \<Rightarrow>
   ident list list \<Rightarrow> prices_data \<Rightarrow> ident list list \<times> (exn + prices_data)" where
  "prices_loop post k [] sent prices_data = (sent, Inr prices_data)"
| "prices_loop post k (batch_ids # rest) sent prices_data =
     (case post k batch_ids of
        Raise e \<Rightarrow> (sent @ [batch_ids], Inl e)
      | Reply status_code price_items \<Rightarrow>
          if status_code = 200
          then prices_loop post (k + 1) rest (sent @ [batch_ids])
                 (store_prices price_items prices_data)
          else prices_loop post (k + 1) rest (sent @ [batch_ids]) prices_data)"

text \<open>
  The result is the pair of the batches posted and the mapping returned. The handler
  of the \<open>try\<close> around the whole loop returns \<open>{}\<close>.
\<close>

definition get_products_prices_v5 ::
  "(nat \<Rightarrow> ident list \<Rightarrow> price_item list reply) \<Rightarrow> ident list \<Rightarrow>
   ident list list \<times> prices_data" where
  "get_products_prices_v5 post product_ids =
     (if product_ids = [] then ([], [])
      else
        (case prices_loop post 0 (batches_from 0 product_ids) [] [] of
           (sent, Inl e) \<Rightarrow> (sent, [])
         | (sent, Inr prices_data) \<Rightarrow> (sent, prices_data)))"

fun descriptions_loop ::
  "(nat \<Rightarrow> ident \<Rightarrow> description_record option reply) \<Rightarrow> nat \<Rightarrow> ident list \<Rightarrow>
   descriptions_data \<Rightarrow> exn + descriptions_data" where
  "descriptions_loop post k [] descriptions_data = Inr descriptions_data"
| "descriptions_loop post k (product_id # rest) descriptions_data =
     (case post k product_id of
        Raise e \<Rightarrow> Inl e
      | Reply status_code description_result \<Rightarrow>
          if status_code = 200 then
            (case description_result of
               None \<Rightarrow> descriptions_loop post (k + 1) rest descriptions_data
             | Some r \<Rightarrow>
                 descriptions_loop post (k + 1) rest
                   (AList.update product_id
                      \<lparr>d_name = d_name r, d_description = d_description r\<rparr>
                      descriptions_data))
          else descriptions_loop post (k + 1) rest descriptions_data)"

definition get_products_descriptions_v1 ::
  "(nat \<Rightarrow> ident \<Rightarrow> description_record option reply) \<Rightarrow> ident list \<Rightarrow> descriptions_data" where
  "get_products_descriptions_v1 post product_ids =
     (if product_ids = [] then []
      else
        (case descriptions_loop post 0 product_ids [] of
           Inl e \<Rightarrow> []
         | Inr descriptions_data \<Rightarrow> descriptions_data))"

section \<open>Reconciliation\<close>

text \<open>\<open>str\<close> of an integer, for the placeholder name.\<close>

fun digits :: "nat \<Rightarrow> str" where
  "digits n = (if n < 10 then [48 + n] else digits (n div 10) @ [48 + n mod 10])"

declare digits.simps [simp del]

definition str_int :: "int \<Rightarrow> str" where
  "str_int i = (if i < 0 then 45 # digits (nat (- i)) else digits (nat i))"

text \<open>The placeholder \<open>f"\<dots> {product_id}"\<close>: a six-character Cyrillic prefix, then the number.\<close>

definition placeholder_name :: "ident \<Rightarrow> str" where
  "placeholder_name product_id = [1058, 1086, 1074, 1072, 1088, 32] @ str_int product_id"

definition truncate_description :: "str \<Rightarrow> str" where
  "truncate_description description =
     (if length description > 200 then take 197 description @ [46, 46, 46]
      else description)"

text \<open>
  The \<open>try\<close> block in the loop over the listing items of \<open>get_products_with_prices\<close>:
  \<open>Inr None\<close> is \<open>continue\<close>, \<open>Inr (Some p)\<close> is the product appended, \<open>Inl\<close> is an
  exception. With the field types above the only statement that raises is the call of
  \<open>_clean_description\<close> on a true value that is not a string.
\<close>

definition make_product_body ::
  "prices_data \<Rightarrow> descriptions_data \<Rightarrow> listing_item \<Rightarrow> exn + product option" where
  "make_product_body prices_data descriptions_data item =
     (case li_product_id item of
        None \<Rightarrow> Inr None
      | Some product_id \<Rightarrow>
          if product_id = 0 then Inr None
          else
            (let offer_id = li_offer_id item;
                 product_info = map_of descriptions_data product_id;
                 name = (case product_info of
                           Some r \<Rightarrow> d_name r
                         | None \<Rightarrow>
                             (case offer_id of
                                None \<Rightarrow> placeholder_name product_id
                              | Some c \<Rightarrow> if c = [] then placeholder_name product_id else c));
                 description = (case product_info of
                                  Some r \<Rightarrow> d_description r
                                | None \<Rightarrow> DText [])
             in case (if \<not> description_truthy description then Inr name
                      else (case description of
                              DText s \<Rightarrow> Inr (truncate_description (clean_description s))
                            | DFalsy \<Rightarrow> Inr name
                            | DOther \<Rightarrow> Inl OtherError)) of
                  Inl e \<Rightarrow> Inl e
                | Inr description \<Rightarrow>
                    (let price = extract_price_from_v5 (map_of prices_data (Some product_id))
                     in if price = 0 then Inr None
                        else Inr (Some \<lparr>p_product_id = product_id, p_offer_id = offer_id,
                                         p_name = name, p_price = price,
                                         p_description = description, p_quantity = 10\<rparr>))))"

text \<open>
  One turn of the loop: \<open>except Exception: continue\<close> skips the item on which the block
  raises. \<open>None\<close> is an item skipped, \<open>Some p\<close> the product appended.
\<close>

definition make_product ::
  "prices_data \<Rightarrow> descriptions_data \<Rightarrow> listing_item \<Rightarrow> product option" where
  "make_product prices_data descriptions_data item =
     (case make_product_body prices_data descriptions_data item of
        Inl e \<Rightarrow> None
      | Inr r \<Rightarrow> r)"

text \<open>\<open>[item['product_id'] for item in items if 'product_id' in item]\<close>\<close>

definition product_ids_of :: "listing_item list \<Rightarrow> ident list" where
  "product_ids_of items =
     map (\<lambda>item. the (li_product_id item)) (filter (\<lambda>item. li_product_id item \<noteq> None) items)"

text \<open>\<open>None\<close> is Python's \<open>None\<close>; every exception is caught and gives \<open>None\<close>.\<close>

definition get_products_with_prices :: "world \<Rightarrow> nat \<Rightarrow> product list option" where
  "get_products_with_prices w limit =
     (if \<not> credentials w then None
      else
        (case list_reply w limit of
           Raise e \<Rightarrow> None
         | Reply status_code items \<Rightarrow>
             if status_code \<noteq> 200 then None
             else if items = [] then None
             else
               (let product_ids = product_ids_of items
                in if product_ids = [] then None
                   else
                     (let prices_data = snd (get_products_prices_v5 (prices_reply w) product_ids);
                          descriptions_data =
                            get_products_descriptions_v1 (descr_reply w) product_ids
                      in Some (List.map_filter (make_product prices_data descriptions_data)
                                 items)))))"

section \<open>The catalog store and the refresh\<close>

text \<open>
  The loop of \<open>load_real_products\<close> that fills the new dictionary; each entry is rebuilt
  field by field from the product and stored under the running counter.
\<close>

fun fill_cache :: "product list \<Rightarrow> int \<Rightarrow> cache \<Rightarrow> cache" where
  "fill_cache [] product_counter products = products"
| "fill_cache (item # rest) product_counter products =
     fill_cache rest (product_counter + 1)
       (AList.update product_counter
          \<lparr>p_product_id = p_product_id item, p_offer_id = p_offer_id item,
           p_name = p_name item, p_price = p_price item,
           p_description = p_description item, p_quantity = p_quantity item\<rparr>
          products)"

text \<open>
  \<open>load_real_products\<close> reads the configuration and the marketplace and assigns the
  global \<open>products_cache\<close>: the function maps the old cache to the new one.
\<close>

definition load_real_products :: "world \<Rightarrow> cache \<Rightarrow> cache" where
  "load_real_products w products_cache =
     (if \<not> credentials w then []
      else
        (case get_products_with_prices w 20 of
           None \<Rightarrow> []
         | Some products_data \<Rightarrow>
             if products_data = [] then [] else fill_cache products_data 1 []))"

text \<open>
  \<open>refresh_products_callback\<close>: the counts before and after, and the new cache.
\<close>

definition refresh_products_callback :: "world \<Rightarrow> cache \<Rightarrow> nat \<times> nat \<times> cache" where
  "refresh_products_callback w products_cache =
     (let products_count_before = length products_cache;
          products_cache = load_real_products w products_cache;
          products_count_after = length products_cache
      in (products_count_before, products_count_after, products_cache))"

text \<open>The two branches of \<open>handle_product_action\<close>: the index that is shown next.\<close>

definition next_index :: "cache \<Rightarrow> int \<Rightarrow> int" where
  "next_index products_cache product_index =
     (let next_index = product_index + 1
      in if next_index > int (length products_cache) then 1 else next_index)"

definition prev_index :: "cache \<Rightarrow> int \<Rightarrow> int" where
  "prev_index products_cache product_index =
     (let prev_index = product_index - 1
      in if prev_index < 1 then int (length products_cache) else prev_index)"

section \<open>Notions used to state the properties\<close>

text \<open>
  The mappings that one run of \<open>get_products_with_prices\<close> holds in its local variables
  \<open>prices_data\<close> and \<open>descriptions_data\<close> for a listing \<open>items\<close>.
\<close>

definition prices_for :: "world \<Rightarrow> listing_item list \<Rightarrow> prices_data" where
  "prices_for w items = snd (get_products_prices_v5 (prices_reply w) (product_ids_of items))"

definition descriptions_for :: "world \<Rightarrow> listing_item list \<Rightarrow> descriptions_data" where
  "descriptions_for w items =
     get_products_descriptions_v1 (descr_reply w) (product_ids_of items)"

text \<open>The raw description text on record for an identifier, empty when there is none.\<close>

definition raw_description :: "descriptions_data \<Rightarrow> ident \<Rightarrow> str" where
  "raw_description descriptions_data product_id =
     (case map_of descriptions_data product_id of
        None \<Rightarrow> []
      | Some r \<Rightarrow> (case d_description r of DText s \<Rightarrow> s | DFalsy \<Rightarrow> [] | DOther \<Rightarrow> []))"

text \<open>
  The description on record for an identifier can be read: there is no record, or its
  description is a string or a false value.
\<close>

definition readable_description :: "descriptions_data \<Rightarrow> ident \<Rightarrow> bool" where
  "readable_description descriptions_data product_id =
     (case map_of descriptions_data product_id of
        None \<Rightarrow> True
      | Some r \<Rightarrow> (case d_description r of DText s \<Rightarrow> True | DFalsy \<Rightarrow> True | DOther \<Rightarrow> False))"

text \<open>A price field that is absent or holds a number that is not positive.\<close>

fun absent_or_nonpositive :: "pyval \<Rightarrow> bool" where
  "absent_or_nonpositive PNone = True"
| "absent_or_nonpositive (PNum r) = (r \<le> 0)"
| "absent_or_nonpositive (PText r) = (r \<le> 0)"
| "absent_or_nonpositive PBad = False"

text \<open>A price field that is absent or holds a number below 1.\<close>

fun absent_or_below_one :: "pyval \<Rightarrow> bool" where
  "absent_or_below_one PNone = True"
| "absent_or_below_one (PNum r) = (r < 1)"
| "absent_or_below_one (PText r) = (r < 1)"
| "absent_or_below_one PBad = False"

text \<open>A price field that holds the number \<open>r\<close>, as a JSON number or as text.\<close>

fun holds_number :: "pyval \<Rightarrow> rat \<Rightarrow> bool" where
  "holds_number (PNum x) r = (x = r)"
| "holds_number (PText x) r = (x = r)"
| "holds_number PNone r = False"
| "holds_number PBad r = False"

text \<open>The price records that a reply contributes: those of a reply with status 200.\<close>

fun records_of :: "price_item list reply \<Rightarrow> price_item list" where
  "records_of (Raise e) = []"
| "records_of (Reply status_code price_items) =
     (if status_code = 200 then price_items else [])"

fun raises :: "'a reply \<Rightarrow> bool" where
  "raises (Raise e) = True"
| "raises (Reply status_code body) = False"

text \<open>
  The replies that the batches of \<open>product_ids\<close> meet, request by request, when every
  batch is posted.
\<close>

definition batch_replies ::
  "(nat \<Rightarrow> ident list \<Rightarrow> price_item list reply) \<Rightarrow> ident list \<Rightarrow> price_item list reply list" where
  "batch_replies post product_ids =
     map (\<lambda>(k, batch_ids). post k batch_ids) (enumerate 0 (batches_from 0 product_ids))"

definition has_id :: "listing_item \<Rightarrow> bool" where
  "has_id item \<longleftrightarrow> li_product_id item \<noteq> None"

text \<open>The world \<open>w\<close> with the listing call answered by \<open>r\<close>.\<close>

definition with_listing :: "world \<Rightarrow> listing_item list reply \<Rightarrow> world" where
  "with_listing w r = w\<lparr>list_reply := (\<lambda>limit. r)\<rparr>"

section \<open>Example inputs\<close>

text \<open>
  A shop with four listed items: 101 has a price and a description, 102 has the
  price 0, one item has no identifier, 103 has only an old price (99.5) and no
  description record.
\<close>

definition shop_items :: "listing_item list" where
  "shop_items =
     [\<lparr>li_product_id = Some 101, li_offer_id = Some [65]\<rparr>,
      \<lparr>li_product_id = Some 102, li_offer_id = Some [66]\<rparr>,
      \<lparr>li_product_id = None, li_offer_id = Some [68]\<rparr>,
      \<lparr>li_product_id = Some 103, li_offer_id = None\<rparr>]"

definition shop_prices :: "price_item list" where
  "shop_prices =
     [\<lparr>pi_product_id = Some 101, pi_price = PriceInfo (PNum 150000) PNone\<rparr>,
      \<lparr>pi_product_id = Some 102, pi_price = PriceInfo (PNum 0) PNone\<rparr>,
      \<lparr>pi_product_id = Some 103, pi_price = PriceInfo PNone (PText (199 / 2))\<rparr>]"

definition shop_world :: world where
  "shop_world =
     \<lparr>credentials = True,
      list_reply = (\<lambda>limit. Reply 200 shop_items),
      prices_reply = (\<lambda>k batch_ids. Reply 200 shop_prices),
      descr_reply = (\<lambda>k product_id.
        if product_id = 101
        then Reply 200 (Some \<lparr>d_name = [78],
                               d_description = DText [60, 112, 62, 72, 105, 60, 47, 112, 62]\<rparr>)
        else Reply 404 None)\<rparr>"

definition shop_product_1 :: product where
  "shop_product_1 =
     \<lparr>p_product_id = 101, p_offer_id = Some [65], p_name = [78], p_price = 150000,
      p_description = [72, 105], p_quantity = 10\<rparr>"

definition shop_product_2 :: product where
  "shop_product_2 =
     \<lparr>p_product_id = 103, p_offer_id = None,
      p_name = [1058, 1086, 1074, 1072, 1088, 32, 49, 48, 51], p_price = 99,
      p_description = [1058, 1086, 1074, 1072, 1088, 32, 49, 48, 51], p_quantity = 10\<rparr>"

text \<open>The same shop when the listing call times out.\<close>

definition offline_world :: world where
  "offline_world = shop_world\<lparr>list_reply := (\<lambda>limit. Raise Timeout)\<rparr>"

text \<open>
  A price endpoint that answers the first request with one record and times out on
  every later one, and 51 identifiers, which make two batches.
\<close>

definition first_record :: price_item where
  "first_record = \<lparr>pi_product_id = Some 1, pi_price = PriceInfo (PNum 250) PNone\<rparr>"

definition flaky_prices :: "nat \<Rightarrow> ident list \<Rightarrow> price_item list reply" where
  "flaky_prices k batch_ids = (if k = 0 then Reply 200 [first_record] else Raise Timeout)"

definition ids_51 :: "ident list" where
  "ids_51 = replicate 50 1 @ [2]"

text \<open>
  A price endpoint that rejects the second request with status 500 and answers the
  others with one record for the first identifier of the batch.
\<close>

definition rejecting_prices :: "nat \<Rightarrow> ident list \<Rightarrow> price_item list reply" where
  "rejecting_prices k batch_ids =
     (if k = 1 then Reply 500 []
      else Reply 200 [\<lparr>pi_product_id = Some (hd batch_ids),
                        pi_price = PriceInfo (PNum 250) PNone\<rparr>])"

text \<open>
  120 identifiers, and a price endpoint whose third request fails with a connection
  error after the first has returned a record.
\<close>

definition ids_120 :: "ident list" where
  "ids_120 = map int [1..<121]"

definition broken_third :: "nat \<Rightarrow> ident list \<Rightarrow> price_item list reply" where
  "broken_third k batch_ids =
     (if k = 0 then Reply 200 [first_record]
      else if k = 1 then Reply 200 []
      else Raise ConnectionError)"

text \<open>
  A shop whose only item has a description record with a name of 201 characters and
  no description text.
\<close>

definition long_name :: str where
  "long_name = replicate 201 65"

definition long_name_world :: world where
  "long_name_world =
     \<lparr>credentials = True,
      list_reply = (\<lambda>limit. Reply 200 [\<lparr>li_product_id = Some 5, li_offer_id = Some [65]\<rparr>]),
      prices_reply = (\<lambda>k batch_ids. Reply 200
        [\<lparr>pi_product_id = Some 5, pi_price = PriceInfo (PNum 100) PNone\<rparr>]),
      descr_reply = (\<lambda>k product_id.
        Reply 200 (Some \<lparr>d_name = long_name, d_description = DText []\<rparr>))\<rparr>"

text \<open>A shop whose only item has the identifier 0 and the price 100.\<close>

definition zero_id_world :: world where
  "zero_id_world =
     \<lparr>credentials = True,
      list_reply = (\<lambda>limit. Reply 200 [\<lparr>li_product_id = Some 0, li_offer_id = Some [65]\<rparr>]),
      prices_reply = (\<lambda>k batch_ids. Reply 200
        [\<lparr>pi_product_id = Some 0, pi_price = PriceInfo (PNum 100) PNone\<rparr>]),
      descr_reply = (\<lambda>k product_id. Reply 404 None)\<rparr>"

text \<open>The shop when its listing holds a single item, which has no identifier.\<close>

definition anonymous_items :: "listing_item list" where
  "anonymous_items = [\<lparr>li_product_id = None, li_offer_id = Some [68]\<rparr>]"

text \<open>
  A shop whose only item has a description of 250 letters, free of markup and of
  white space.
\<close>

definition wordy_world :: world where
  "wordy_world =
     \<lparr>credentials = True,
      list_reply = (\<lambda>limit. Reply 200 [\<lparr>li_product_id = Some 6, li_offer_id = Some [66]\<rparr>]),
      prices_reply = (\<lambda>k batch_ids. Reply 200
        [\<lparr>pi_product_id = Some 6, pi_price = PriceInfo (PNum 300) PNone\<rparr>]),
      descr_reply = (\<lambda>k product_id.
        Reply 200 (Some \<lparr>d_name = [87], d_description = DText (replicate 250 65)\<rparr>))\<rparr>"

text \<open>
  A shop whose only item has the identifier 7 and the price 100, and whose description
  record holds a number in place of the description text.
\<close>

definition numeric_description_world :: world where
  "numeric_description_world =
     \<lparr>credentials = True,
      list_reply = (\<lambda>limit. Reply 200 [\<lparr>li_product_id = Some 7, li_offer_id = Some [65]\<rparr>]),
      prices_reply = (\<lambda>k batch_ids. Reply 200
        [\<lparr>pi_product_id = Some 7, pi_price = PriceInfo (PNum 100) PNone\<rparr>]),
      descr_reply = (\<lambda>k product_id.
        Reply 200 (Some \<lparr>d_name = [78], d_description = DOther\<rparr>))\<rparr>"

section \<open>Auxiliary facts\<close>

lemma py_int_numeral: "py_int (numeral n) = numeral n"
  by (simp add: py_int_def)

lemma py_int_zero: "py_int 0 = 0"
  by (simp add: py_int_def)

lemma py_int_half: "py_int (199 / 2) = 99"
  by code_simp

lemma py_int_pos_iff: "0 < py_int r \<longleftrightarrow> 1 \<le> r"
proof (cases "0 \<le> r")
  case True
  then show ?thesis by (simp add: py_int_def)
next
  case False
  then have "\<lceil>r\<rceil> \<le> 0" by simp
  with False show ?thesis by (simp add: py_int_def)
qed

lemma py_int_floor: "0 \<le> r \<Longrightarrow> py_int r = \<lfloor>r\<rfloor>"
  by (simp add: py_int_def)

lemma usable_price_pos: "usable_price v = Inr (Some n) \<Longrightarrow> 0 < n"
  by (auto simp: usable_price_def split: if_splits sum.splits)

lemma price_from_nonneg: "price_from a b = Inr n \<Longrightarrow> 0 \<le> n"
  by (auto simp: price_from_def split: sum.splits option.splits dest: usable_price_pos)

lemma extract_price_nonneg: "0 \<le> extract_price_from_v5 po"
  by (auto simp: extract_price_from_v5_def split: option.splits sum.splits price_field.splits
      dest: price_from_nonneg)

lemma usable_price_below_one: "absent_or_below_one v \<Longrightarrow> usable_price v = Inr None"
  by (cases v) (auto simp: usable_price_def py_int_pos_iff)

lemma usable_price_bad: "usable_price PBad = Inl OtherError"
  by (simp add: usable_price_def)

lemma usable_price_number:
  "holds_number v r \<Longrightarrow> usable_price v = (if 1 \<le> r then Inr (Some \<lfloor>r\<rfloor>) else Inr None)"
  by (cases v) (auto simp: usable_price_def py_int_pos_iff py_int_floor)

lemma make_product_SomeD:
  assumes "make_product prices_data descriptions_data item = Some p"
  shows "li_product_id item = Some (p_product_id p)" and "p_product_id p \<noteq> 0"
    and "p_price p = extract_price_from_v5 (map_of prices_data (Some (p_product_id p)))"
    and "0 < p_price p" and "p_offer_id p = li_offer_id item" and "p_quantity p = 10"
  using assms extract_price_nonneg [of "map_of prices_data (li_product_id item)"]
  by (auto simp: make_product_def make_product_body_def Let_def
      split: option.splits if_splits sum.splits description_value.splits)

lemma make_product_None_iff:
  "make_product prices_data descriptions_data item = None \<longleftrightarrow>
     (case li_product_id item of
        None \<Rightarrow> True
      | Some product_id \<Rightarrow>
          product_id = 0 \<or> \<not> readable_description descriptions_data product_id \<or>
          extract_price_from_v5 (map_of prices_data (Some product_id)) = 0)"
  by (auto simp: make_product_def make_product_body_def readable_description_def Let_def
      split: option.splits sum.splits description_value.splits)

lemma make_product_unpriced:
  assumes "li_product_id item = Some product_id"
    and "extract_price_from_v5 (map_of prices_data (Some product_id)) = 0"
  shows "make_product prices_data descriptions_data item = None"
  using assms by (simp add: make_product_None_iff)

lemma map_filter_set: "y \<in> set (List.map_filter f xs) \<longleftrightarrow> (\<exists>x \<in> set xs. f x = Some y)"
  by (induction xs) (auto simp: map_filter_simps split: option.splits)

lemma map_filter_length: "length (List.map_filter f xs) \<le> length xs"
  by (induction xs) (auto simp: map_filter_simps split: option.splits)

lemma update_fresh: "k \<notin> fst ` set al \<Longrightarrow> AList.update k v al = al @ [(k, v)]"
  by (induction al) auto

lemma fill_cache_eq:
  "\<forall>k \<in> fst ` set products. k < c \<Longrightarrow>
   fill_cache ps c products = products @ zip (map (\<lambda>i. c + int i) [0..<length ps]) ps"
proof (induction ps arbitrary: c products)
  case Nil
  then show ?case by simp
next
  case (Cons item rest)
  have fresh: "c \<notin> fst ` set products" using Cons.prems by auto
  have rebuilt: "\<lparr>p_product_id = p_product_id item, p_offer_id = p_offer_id item,
           p_name = p_name item, p_price = p_price item,
           p_description = p_description item, p_quantity = p_quantity item\<rparr> = item"
    by simp
  have bound: "\<forall>k \<in> fst ` set (products @ [(c, item)]). k < c + 1"
    using Cons.prems by auto
  have shift: "map (\<lambda>i. c + int i) [0..<Suc (length rest)] =
      c # map (\<lambda>i. c + 1 + int i) [0..<length rest]"
    by (simp add: upt_conv_Cons map_Suc_upt [symmetric] del: upt_Suc)
  show ?case
    using Cons.IH [OF bound] by (simp add: rebuilt update_fresh [OF fresh] shift del: upt_Suc)
qed

lemma load_real_products_eq:
  "load_real_products w c =
     (case get_products_with_prices w 20 of
        None \<Rightarrow> []
      | Some ps \<Rightarrow> zip (map (\<lambda>i. 1 + int i) [0..<length ps]) ps)"
proof (cases "get_products_with_prices w 20")
  case None
  then show ?thesis by (simp add: load_real_products_def)
next
  case (Some ps)
  then have "credentials w"
    by (auto simp: get_products_with_prices_def split: if_splits)
  then show ?thesis
    using Some fill_cache_eq [of "[]" 1 ps] by (simp add: load_real_products_def)
qed

lemma get_products_eq:
  assumes "credentials w" and "list_reply w limit = Reply 200 items"
  shows "get_products_with_prices w limit =
     (if items = [] \<or> product_ids_of items = [] then None
      else Some (List.map_filter
                   (make_product (prices_for w items) (descriptions_for w items)) items))"
  using assms
  by (simp add: get_products_with_prices_def Let_def prices_for_def descriptions_for_def)

lemma get_products_SomeD:
  assumes "get_products_with_prices w limit = Some ps"
  obtains items where "credentials w" and "list_reply w limit = Reply 200 items"
    and "ps = List.map_filter
                (make_product (prices_for w items) (descriptions_for w items)) items"
  using assms
  by (auto simp: get_products_with_prices_def Let_def prices_for_def descriptions_for_def
      split: if_splits reply.splits)

lemma no_ids_no_products:
  "product_ids_of items = [] \<Longrightarrow> List.map_filter (make_product pd dd) items = []"
  by (induction items)
     (auto simp: product_ids_of_def map_filter_simps make_product_def make_product_body_def
        split: if_splits)

lemma snapshot_products:
  assumes "credentials w" and "list_reply w 20 = Reply 200 items"
  shows "map snd (load_real_products w c) =
     List.map_filter (make_product (prices_for w items) (descriptions_for w items)) items"
proof (cases "items = [] \<or> product_ids_of items = []")
  case True
  then have "List.map_filter
      (make_product (prices_for w items) (descriptions_for w items)) items = []"
    by (auto simp: map_filter_simps no_ids_no_products)
  then show ?thesis
    using True get_products_eq [OF assms] by (simp add: load_real_products_eq)
next
  case False
  then show ?thesis
    using get_products_eq [OF assms] by (simp add: load_real_products_eq)
qed

lemma snapshot_keys:
  "map fst (load_real_products w c) =
     map (\<lambda>i. 1 + int i) [0..<length (load_real_products w c)]"
  by (simp add: load_real_products_eq split: option.splits)

lemma snapshot_memberD:
  assumes "(k, p) \<in> set (load_real_products w c)"
  obtains items item where "credentials w" and "list_reply w 20 = Reply 200 items"
    and "item \<in> set items"
    and "make_product (prices_for w items) (descriptions_for w items) item = Some p"
proof (cases "get_products_with_prices w 20")
  case None
  with assms show thesis by (simp add: load_real_products_eq)
next
  case (Some ps)
  with assms have "(k, p) \<in> set (zip (map (\<lambda>i. 1 + int i) [0..<length ps]) ps)"
    by (simp add: load_real_products_eq)
  then have mem: "p \<in> set ps" by (rule set_zip_rightD)
  from Some obtain items where w: "credentials w" "list_reply w 20 = Reply 200 items"
    and ps: "ps = List.map_filter
                (make_product (prices_for w items) (descriptions_for w items)) items"
    by (rule get_products_SomeD)
  from mem ps obtain item where "item \<in> set items"
    and "make_product (prices_for w items) (descriptions_for w items) item = Some p"
    by (auto simp: map_filter_set)
  with w show thesis by (rule that)
qed

lemma shop_product_ids: "product_ids_of shop_items = [101, 102, 103]"
  by (simp add: product_ids_of_def shop_items_def)

lemma shop_prices_for: "prices_for shop_world shop_items = 
   [(Some 101, \<lparr>pi_product_id = Some 101, pi_price = PriceInfo (PNum 150000) PNone\<rparr>),
    (Some 102, \<lparr>pi_product_id = Some 102, pi_price = PriceInfo (PNum 0) PNone\<rparr>),
    (Some 103, \<lparr>pi_product_id = Some 103, pi_price = PriceInfo PNone (PText (199 / 2))\<rparr>)]"
  by (simp add: prices_for_def shop_product_ids get_products_prices_v5_def batches_from.simps
      shop_world_def shop_prices_def store_prices_def)

lemma shop_descriptions_for: "descriptions_for shop_world shop_items =
   [(101, \<lparr>d_name = [78],
            d_description = DText [60, 112, 62, 72, 105, 60, 47, 112, 62]\<rparr>)]"
  by (simp add: descriptions_for_def shop_product_ids get_products_descriptions_v1_def
      shop_world_def)

lemma shop_listing:
  "credentials shop_world" "list_reply shop_world 20 = Reply 200 shop_items"
  by (simp_all add: shop_world_def)

lemma shop_products:
  "List.map_filter
     (make_product (prices_for shop_world shop_items) (descriptions_for shop_world shop_items))
     shop_items = [shop_product_1, shop_product_2]"
  unfolding shop_prices_for shop_descriptions_for
  by (simp add: shop_items_def map_filter_simps make_product_def make_product_body_def Let_def
      extract_price_from_v5_def price_from_def usable_price_def py_int_numeral py_int_zero
      py_int_half placeholder_name_def str_int_def digits.simps truncate_description_def
      clean_description_def match_br_def match_tag_def match_blank_def strip_def is_space_def
      shop_product_1_def shop_product_2_def)

lemma shop_snapshot:
  "load_real_products shop_world c = [(1, shop_product_1), (2, shop_product_2)]"
proof -
  have "get_products_with_prices shop_world 20 = Some [shop_product_1, shop_product_2]"
    by (simp add: get_products_eq [OF shop_listing] shop_product_ids shop_products)
       (simp add: shop_items_def)
  then show ?thesis by (simp add: load_real_products_eq)
qed

section \<open>Price resolution and the exclusion of unpriced items\<close>

text \<open>
  C1. Every product of a snapshot that a refresh produces has a price above 0, and a
  listing item whose price resolves to 0 or less yields no product at all.
\<close>

theorem snapshot_prices_positive:
  "((k, p) \<in> set (load_real_products w c) \<longrightarrow> 0 < p_price p) \<and>
   (li_product_id item = Some product_id \<and>
    extract_price_from_v5 (map_of prices_data (Some product_id)) \<le> 0 \<longrightarrow>
      make_product prices_data descriptions_data item = None)"
proof (intro conjI impI)
  assume "(k, p) \<in> set (load_real_products w c)"
  then show "0 < p_price p"
    by (rule snapshot_memberD) (rule make_product_SomeD(4))
next
  assume "li_product_id item = Some product_id \<and>
    extract_price_from_v5 (map_of prices_data (Some product_id)) \<le> 0"
  moreover have "0 \<le> extract_price_from_v5 (map_of prices_data (Some product_id))"
    by (rule extract_price_nonneg)
  ultimately show "make_product prices_data descriptions_data item = None"
    by (intro make_product_unpriced [of item product_id]) simp_all
qed

theorem snapshot_prices_positive_witness:
  "(2, shop_product_2) \<in> set (load_real_products shop_world []) \<and>
   0 < p_price shop_product_2 \<and>
   li_product_id \<lparr>li_product_id = Some 102, li_offer_id = Some [66]\<rparr> = Some 102 \<and>
   extract_price_from_v5
     (map_of (prices_for shop_world shop_items) (Some 102)) \<le> 0 \<and>
   make_product (prices_for shop_world shop_items) (descriptions_for shop_world shop_items)
     \<lparr>li_product_id = Some 102, li_offer_id = Some [66]\<rparr> = None"
proof -
  have member: "(2, shop_product_2) \<in> set (load_real_products shop_world [])"
    by (simp add: shop_snapshot)
  have zero: "extract_price_from_v5
     (map_of (prices_for shop_world shop_items) (Some 102)) \<le> 0"
    by (simp add: shop_prices_for extract_price_from_v5_def price_from_def usable_price_def)
  show ?thesis
    using member zero
      snapshot_prices_positive [of 2 shop_product_2 shop_world "[]"
        "\<lparr>li_product_id = Some 102, li_offer_id = Some [66]\<rparr>" 102
        "prices_for shop_world shop_items" "descriptions_for shop_world shop_items"]
    by simp
qed

text \<open>
  C2, as the code has it. Price resolution works on the whole part of a price, that
  is the price cut towards zero. It takes the primary price first: a primary price of
  at least 1 resolves to its whole part. A primary price that is absent or below 1,
  a positive one below 1 included, falls back to the old price, which resolves to
  its whole part when it is at least 1; when both are absent or below 1 the result
  is 0. A field that cannot be read as a number, met before a price is found, makes
  the result 0, and so does a price item without a price object. The result is never
  negative.
\<close>

theorem extract_price_resolution:
  "(holds_number main_price r \<and> 1 \<le> r \<longrightarrow>
      extract_price_from_v5
        (Some \<lparr>pi_product_id = i, pi_price = PriceInfo main_price old_price\<rparr>) = \<lfloor>r\<rfloor>) \<and>
   (absent_or_below_one main_price \<and> holds_number old_price q \<and> 1 \<le> q \<longrightarrow>
      extract_price_from_v5
        (Some \<lparr>pi_product_id = i, pi_price = PriceInfo main_price old_price\<rparr>) = \<lfloor>q\<rfloor>) \<and>
   (absent_or_below_one main_price \<and> absent_or_below_one old_price \<longrightarrow>
      extract_price_from_v5
        (Some \<lparr>pi_product_id = i, pi_price = PriceInfo main_price old_price\<rparr>) = 0) \<and>
   (main_price = PBad \<or> (absent_or_below_one main_price \<and> old_price = PBad) \<longrightarrow>
      extract_price_from_v5
        (Some \<lparr>pi_product_id = i, pi_price = PriceInfo main_price old_price\<rparr>) = 0) \<and>
   extract_price_from_v5 (Some \<lparr>pi_product_id = i, pi_price = PriceMissing\<rparr>) = 0 \<and>
   extract_price_from_v5 (Some \<lparr>pi_product_id = i, pi_price = PriceNotDict\<rparr>) = 0 \<and>
   extract_price_from_v5 None = 0 \<and>
   0 \<le> extract_price_from_v5 po"
proof (intro conjI impI)
  assume "holds_number main_price r \<and> 1 \<le> r"
  then have "usable_price main_price = Inr (Some \<lfloor>r\<rfloor>)"
    by (simp add: usable_price_number [of main_price r])
  then show "extract_price_from_v5
      (Some \<lparr>pi_product_id = i, pi_price = PriceInfo main_price old_price\<rparr>) = \<lfloor>r\<rfloor>"
    by (simp add: extract_price_from_v5_def price_from_def)
next
  assume "absent_or_below_one main_price \<and> holds_number old_price q \<and> 1 \<le> q"
  then have "usable_price main_price = Inr None"
    and "usable_price old_price = Inr (Some \<lfloor>q\<rfloor>)"
    by (simp_all add: usable_price_below_one usable_price_number [of old_price q])
  then show "extract_price_from_v5
      (Some \<lparr>pi_product_id = i, pi_price = PriceInfo main_price old_price\<rparr>) = \<lfloor>q\<rfloor>"
    by (simp add: extract_price_from_v5_def price_from_def)
next
  assume "absent_or_below_one main_price \<and> absent_or_below_one old_price"
  then show "extract_price_from_v5
      (Some \<lparr>pi_product_id = i, pi_price = PriceInfo main_price old_price\<rparr>) = 0"
    by (simp add: extract_price_from_v5_def price_from_def usable_price_below_one)
next
  assume "main_price = PBad \<or> (absent_or_below_one main_price \<and> old_price = PBad)"
  then show "extract_price_from_v5
      (Some \<lparr>pi_product_id = i, pi_price = PriceInfo main_price old_price\<rparr>) = 0"
    by (auto simp: extract_price_from_v5_def price_from_def usable_price_below_one
        usable_price_bad)
next
  show "extract_price_from_v5 (Some \<lparr>pi_product_id = i, pi_price = PriceMissing\<rparr>) = 0"
    by (simp add: extract_price_from_v5_def price_from_def usable_price_def)
next
  show "extract_price_from_v5 (Some \<lparr>pi_product_id = i, pi_price = PriceNotDict\<rparr>) = 0"
    by (simp add: extract_price_from_v5_def)
next
  show "extract_price_from_v5 None = 0"
    by (simp add: extract_price_from_v5_def)
next
  show "0 \<le> extract_price_from_v5 po"
    by (rule extract_price_nonneg)
qed

theorem extract_price_resolution_witness:
  "extract_price_from_v5
     (Some \<lparr>pi_product_id = Some 101, pi_price = PriceInfo (PNum 150000) (PNum 170000)\<rparr>)
     = 150000 \<and>
   extract_price_from_v5
     (Some \<lparr>pi_product_id = Some 103, pi_price = PriceInfo (PNum 0) (PText (199 / 2))\<rparr>)
     = 99 \<and>
   extract_price_from_v5
     (Some \<lparr>pi_product_id = Some 102, pi_price = PriceInfo (PText (- 5)) PNone\<rparr>) = 0 \<and>
   extract_price_from_v5
     (Some \<lparr>pi_product_id = Some 104, pi_price = PriceInfo PBad (PNum 7)\<rparr>) = 0"
proof -
  have whole: "\<lfloor>199 / 2 :: rat\<rfloor> = 99"
    by code_simp
  have "extract_price_from_v5
     (Some \<lparr>pi_product_id = Some 101, pi_price = PriceInfo (PNum 150000) (PNum 170000)\<rparr>)
     = 150000"
    using extract_price_resolution
      [of "PNum 150000" 150000 "Some 101" "PNum 170000" 170000 None]
    by simp
  moreover have "extract_price_from_v5
     (Some \<lparr>pi_product_id = Some 103, pi_price = PriceInfo (PNum 0) (PText (199 / 2))\<rparr>)
     = 99"
    using extract_price_resolution
      [of "PNum 0" 0 "Some 103" "PText (199 / 2)" "199 / 2" None]
    by (simp add: whole)
  moreover have "extract_price_from_v5
     (Some \<lparr>pi_product_id = Some 102, pi_price = PriceInfo (PText (- 5)) PNone\<rparr>) = 0"
    using extract_price_resolution [of "PText (- 5)" 0 "Some 102" PNone 0 None]
    by simp
  moreover have "extract_price_from_v5
     (Some \<lparr>pi_product_id = Some 104, pi_price = PriceInfo PBad (PNum 7)\<rparr>) = 0"
    using extract_price_resolution [of PBad 0 "Some 104" "PNum 7" 7 None]
    by simp
  ultimately show ?thesis by simp
qed

text \<open>
  The claim C2 as it is written fails: the primary price 0.5 is present and positive,
  yet the result is the old price 7.
\<close>

theorem positive_primary_below_one_falls_back:
  "absent_or_nonpositive (PNum (1 / 2)) = False \<and>
   extract_price_from_v5
     (Some \<lparr>pi_product_id = Some 1, pi_price = PriceInfo (PNum (1 / 2)) (PNum 7)\<rparr>) = 7"
proof -
  have "usable_price (PNum (1 / 2)) = Inr None"
    by (rule usable_price_below_one) simp
  moreover have "usable_price (PNum 7) = Inr (Some 7)"
    by (simp add: usable_price_def py_int_numeral)
  ultimately show ?thesis
    by (simp add: extract_price_from_v5_def price_from_def)
qed

section \<open>The refresh and the store\<close>

lemma next_index_iterate:
  assumes "1 \<le> p" and "p \<le> int (length c)"
  shows "(next_index c ^^ k) p = (p - 1 + int k) mod int (length c) + 1"
proof (induction k)
  case 0
  from assms show ?case by simp
next
  case (Suc k)
  define q where "q = (p - 1 + int k) mod int (length c)"
  have n: "0 < int (length c)" using assms by linarith
  then have q: "0 \<le> q" "q < int (length c)" by (simp_all add: q_def)
  have "(p - 1 + int (Suc k)) mod int (length c) = (q + 1) mod int (length c)"
    by (simp add: q_def mod_add_left_eq add.assoc)
  also have "\<dots> = (if q + 1 = int (length c) then 0 else q + 1)"
    using q by simp
  finally have step: "(p - 1 + int (Suc k)) mod int (length c) + 1 =
      (if q + 1 = int (length c) then 1 else q + 2)"
    by simp
  have "(next_index c ^^ Suc k) p = next_index c (q + 1)"
    using Suc.IH by (simp add: q_def)
  also have "\<dots> = (if q + 1 = int (length c) then 1 else q + 2)"
    using q by (auto simp: next_index_def)
  finally show ?case using step by simp
qed

lemma prev_index_iterate:
  assumes "1 \<le> p" and "p \<le> int (length c)"
  shows "(prev_index c ^^ k) p = (p - 1 - int k) mod int (length c) + 1"
proof (induction k)
  case 0
  from assms show ?case by simp
next
  case (Suc k)
  define q where "q = (p - 1 - int k) mod int (length c)"
  have n: "0 < int (length c)" using assms by linarith
  then have q: "0 \<le> q" "q < int (length c)" by (simp_all add: q_def)
  have "(p - 1 - int (Suc k)) mod int (length c) = (q - 1) mod int (length c)"
    by (simp add: q_def mod_diff_left_eq diff_diff_eq)
  also have "\<dots> = (if q = 0 then int (length c) - 1 else q - 1)"
  proof (cases "q = 0")
    case True
    have "(- 1) mod int (length c) = int (length c) - 1"
      using n by (simp add: zmod_minus1)
    with True show ?thesis by simp
  next
    case False
    with q show ?thesis by simp
  qed
  finally have step: "(p - 1 - int (Suc k)) mod int (length c) + 1 =
      (if q = 0 then int (length c) else q)"
    by simp
  have "(prev_index c ^^ Suc k) p = prev_index c (q + 1)"
    using Suc.IH by (simp add: q_def)
  also have "\<dots> = (if q = 0 then int (length c) else q)"
    using q by (auto simp: prev_index_def)
  finally show ?case using step by simp
qed

text \<open>
  C5. When the listing call raises, answers with another status than 200 or returns
  no items, the refresh leaves an empty cache whatever the cache held before, and
  reports the old size and the new size 0. The refresh is a total function: it
  returns in every case.
\<close>

theorem failed_listing_clears_catalog:
  assumes "list_reply w 20 = Raise e \<or>
           (list_reply w 20 = Reply status_code items \<and> (status_code \<noteq> 200 \<or> items = []))"
  shows "load_real_products w products_cache = [] \<and>
         refresh_products_callback w products_cache = (length products_cache, 0, [])"
proof -
  from assms have "get_products_with_prices w 20 = None"
    by (auto simp: get_products_with_prices_def)
  then have "load_real_products w products_cache = []"
    by (simp add: load_real_products_eq)
  then show ?thesis
    by (simp add: refresh_products_callback_def)
qed

theorem failed_listing_clears_catalog_witness:
  "list_reply offline_world 20 = Raise Timeout \<and>
   load_real_products offline_world [(1, shop_product_1), (2, shop_product_2)] = [] \<and>
   refresh_products_callback offline_world [(1, shop_product_1), (2, shop_product_2)]
     = (2, 0, [])"
proof -
  have down: "list_reply offline_world 20 = Raise Timeout"
    by (simp add: offline_world_def)
  then have "list_reply offline_world 20 = Raise Timeout \<or>
      (list_reply offline_world 20 = Reply 0 [] \<and> (0 \<noteq> (200::nat) \<or> [] = []))"
    by simp
  from failed_listing_clears_catalog [OF this, of "[(1, shop_product_1), (2, shop_product_2)]"]
    down
  show ?thesis by simp
qed

text \<open>
  C6. In a cache of size N, at least 1, and for a position p from 1 to N: the next
  position is p + 1, except that it is 1 after N; the previous position is p - 1,
  except that it is N before 1; and N steps forward, like N steps back, lead from p
  to p again.
\<close>

theorem navigation_cycle:
  assumes "1 \<le> length products_cache"
    and "1 \<le> p" and "p \<le> int (length products_cache)"
  shows "next_index products_cache p =
           (if p = int (length products_cache) then 1 else p + 1) \<and>
         prev_index products_cache p =
           (if p = 1 then int (length products_cache) else p - 1) \<and>
         (next_index products_cache ^^ length products_cache) p = p \<and>
         (prev_index products_cache ^^ length products_cache) p = p"
proof -
  have "next_index products_cache p =
      (if p = int (length products_cache) then 1 else p + 1)"
    using assms by (auto simp: next_index_def)
  moreover have "prev_index products_cache p =
      (if p = 1 then int (length products_cache) else p - 1)"
    using assms by (auto simp: prev_index_def)
  moreover have "(next_index products_cache ^^ length products_cache) p = p"
    using assms by (simp add: next_index_iterate)
  moreover have "(prev_index products_cache ^^ length products_cache) p = p"
    using assms by (simp add: prev_index_iterate)
  ultimately show ?thesis by simp
qed

theorem navigation_cycle_witness:
  "next_index [(1, shop_product_1), (2, shop_product_2)] 1 = 2 \<and>
   next_index [(1, shop_product_1), (2, shop_product_2)] 2 = 1 \<and>
   prev_index [(1, shop_product_1), (2, shop_product_2)] 1 = 2 \<and>
   prev_index [(1, shop_product_1), (2, shop_product_2)] 2 = 1 \<and>
   (next_index [(1, shop_product_1), (2, shop_product_2)] ^^ 2) 2 = 2 \<and>
   (prev_index [(1, shop_product_1), (2, shop_product_2)] ^^ 2) 1 = 1"
  using navigation_cycle [of "[(1, shop_product_1), (2, shop_product_2)]" 1]
    navigation_cycle [of "[(1, shop_product_1), (2, shop_product_2)]" 2]
  by (simp add: numeral_2_eq_2)

lemma positions_from_one: "map (\<lambda>i. 1 + int i) [0..<n] = map int [1..<Suc n]"
proof -
  have "map int [1..<Suc n] = map int (map Suc [0..<n])"
    by (simp only: map_Suc_upt One_nat_def)
  then show ?thesis by (simp add: comp_def)
qed

lemma positions_set: "set (map int [1..<Suc n]) = {1..int n}"
proof -
  have "set (map int [1..<Suc n]) = int ` {1..n}"
    by (simp only: set_map set_upt atLeastLessThanSuc_atLeastAtMost)
  also have "\<dots> = {int 1..int n}"
    by (rule image_int_atLeastAtMost)
  finally show ?thesis by simp
qed

lemma map_filter_ids:
  "map (\<lambda>p. Some (p_product_id p)) (List.map_filter (make_product pd dd) items) =
   map li_product_id (filter (\<lambda>item. make_product pd dd item \<noteq> None) items)"
  by (induction items)
     (auto simp: map_filter_simps split: option.splits dest: make_product_SomeD(1))

text \<open>
  C7. The positions of a snapshot built by a refresh are 1, 2, ..., size, in this
  order and without gaps; the products stand in the order of the listing, the items
  that yield no product left out.
\<close>

theorem snapshot_positions_dense:
  "map fst (load_real_products w c) =
     map int [1..<Suc (length (load_real_products w c))] \<and>
   fst ` set (load_real_products w c) = {1..int (length (load_real_products w c))} \<and>
   distinct (map fst (load_real_products w c)) \<and>
   (credentials w \<and> list_reply w 20 = Reply 200 items \<longrightarrow>
      map snd (load_real_products w c) =
        List.map_filter
          (make_product (prices_for w items) (descriptions_for w items)) items \<and>
      subseq (map (\<lambda>p. Some (p_product_id p)) (map snd (load_real_products w c)))
        (map li_product_id items))"
proof (intro conjI impI)
  show keys: "map fst (load_real_products w c) =
      map int [1..<Suc (length (load_real_products w c))]"
    using snapshot_keys [of w c] by (simp only: positions_from_one)
  have "fst ` set (load_real_products w c) = set (map fst (load_real_products w c))"
    by simp
  also have "\<dots> = {1..int (length (load_real_products w c))}"
    by (simp only: keys positions_set)
  finally show "fst ` set (load_real_products w c) =
      {1..int (length (load_real_products w c))}" .
  have "distinct (map int [1..<Suc (length (load_real_products w c))])"
    by (simp add: distinct_map)
  then show "distinct (map fst (load_real_products w c))"
    by (simp only: keys [symmetric])
next
  assume w: "credentials w \<and> list_reply w 20 = Reply 200 items"
  then show products: "map snd (load_real_products w c) =
      List.map_filter (make_product (prices_for w items) (descriptions_for w items)) items"
    by (simp add: snapshot_products)
  have "subseq
      (map li_product_id
        (filter (\<lambda>item. make_product (prices_for w items) (descriptions_for w items) item
           \<noteq> None) items))
      (map li_product_id items)"
    by (intro subseq_map subseq_filter_left)
  then show "subseq (map (\<lambda>p. Some (p_product_id p)) (map snd (load_real_products w c)))
      (map li_product_id items)"
    by (simp only: products map_filter_ids)
qed

theorem snapshot_positions_dense_witness:
  "credentials shop_world \<and> list_reply shop_world 20 = Reply 200 shop_items \<and>
   map fst (load_real_products shop_world []) = [1, 2] \<and>
   fst ` set (load_real_products shop_world []) = {1..2} \<and>
   map snd (load_real_products shop_world []) =
     List.map_filter
       (make_product (prices_for shop_world shop_items)
          (descriptions_for shop_world shop_items)) shop_items \<and>
   subseq (map (\<lambda>p. Some (p_product_id p)) (map snd (load_real_products shop_world [])))
     (map li_product_id shop_items)"
proof -
  have size: "length (load_real_products shop_world []) = 2"
    by (simp add: shop_snapshot)
  have count: "map int [1..<Suc 2] = [1, 2]"
    by code_simp
  have range: "{1..int 2} = {1..2}"
    by simp
  note dense = snapshot_positions_dense [of shop_world "[]" shop_items]
  from dense have "map fst (load_real_products shop_world []) = [1, 2]"
    by (simp only: size count)
  moreover from dense have "fst ` set (load_real_products shop_world []) = {1..2}"
    by (simp only: size range)
  moreover from dense shop_listing
  have "map snd (load_real_products shop_world []) =
     List.map_filter
       (make_product (prices_for shop_world shop_items)
          (descriptions_for shop_world shop_items)) shop_items \<and>
   subseq (map (\<lambda>p. Some (p_product_id p)) (map snd (load_real_products shop_world [])))
     (map li_product_id shop_items)"
    by blast
  ultimately show ?thesis
    using shop_listing by blast
qed

section \<open>Batched price lookup\<close>

lemma concat_batches_from: "concat (batches_from i product_ids) = drop i product_ids"
proof (induction i product_ids rule: batches_from.induct)
  case (1 i product_ids)
  show ?case
  proof (cases "i < length product_ids")
    case True
    have "take 50 (drop i product_ids) @ drop (i + 50) product_ids =
        take 50 (drop i product_ids) @ drop 50 (drop i product_ids)"
      by (simp add: add.commute)
    also have "\<dots> = drop i product_ids"
      by (rule append_take_drop_id)
    finally have "take 50 (drop i product_ids) @ drop (i + 50) product_ids =
        drop i product_ids" .
    with True "1.IH" show ?thesis
      by (subst batches_from.simps) (simp del: drop_drop)
  next
    case False
    then show ?thesis
      by (subst batches_from.simps) simp
  qed
qed

lemma batches_from_bound:
  "batch_ids \<in> set (batches_from i product_ids) \<Longrightarrow>
     batch_ids \<noteq> [] \<and> length batch_ids \<le> 50"
proof (induction i product_ids rule: batches_from.induct)
  case (1 i product_ids)
  show ?case
  proof (cases "i < length product_ids")
    case True
    from "1.prems" have "batch_ids = take 50 (drop i product_ids) \<or>
        batch_ids \<in> set (batches_from (i + 50) product_ids)"
      by (subst (asm) batches_from.simps) (simp add: True)
    then show ?thesis
      using True "1.IH" by auto
  next
    case False
    with "1.prems" show ?thesis
      by (subst (asm) batches_from.simps) simp
  qed
qed

lemma batches_of_120:
  assumes "length product_ids = 120"
  shows "batches_from 0 product_ids =
     [take 50 product_ids, take 50 (drop 50 product_ids), take 50 (drop 100 product_ids)]"
proof -
  have "batches_from 150 product_ids = []"
    using assms by (subst batches_from.simps) simp
  then have "batches_from 100 product_ids = [take 50 (drop 100 product_ids)]"
    using assms by (subst batches_from.simps) simp
  then have "batches_from 50 product_ids =
      [take 50 (drop 50 product_ids), take 50 (drop 100 product_ids)]"
    using assms by (subst batches_from.simps) simp
  then show ?thesis
    using assms by (subst batches_from.simps) simp
qed

lemma batches_of_51: "batches_from 0 ids_51 = [replicate 50 1, [2]]"
proof -
  have size: "length ids_51 = 51"
    by (simp add: ids_51_def)
  have "batches_from 100 ids_51 = []"
    using size by (subst batches_from.simps) simp
  then have "batches_from 50 ids_51 = [[2]]"
    using size by (subst batches_from.simps) (simp add: ids_51_def)
  then show ?thesis
    using size by (subst batches_from.simps) (simp add: ids_51_def)
qed

lemma store_prices_append:
  "store_prices (xs @ ys) prices_data = store_prices ys (store_prices xs prices_data)"
  by (simp add: store_prices_def)

lemma store_prices_keys:
  "fst ` set (store_prices price_items prices_data) =
     pi_product_id ` set price_items \<union> fst ` set prices_data"
proof (induction price_items arbitrary: prices_data)
  case Nil
  show ?case by (simp add: store_prices_def)
next
  case (Cons x xs)
  have "store_prices (x # xs) prices_data =
      store_prices xs (AList.update (pi_product_id x) x prices_data)"
    by (simp add: store_prices_def)
  then show ?case
    by (simp add: Cons.IH dom_update)
qed

lemma prices_loop_no_raise:
  assumes "\<forall>r \<in> set (map (\<lambda>(j, b). post j b) (enumerate k bs)). \<not> raises r"
  shows "prices_loop post k bs sent prices_data =
     (sent @ bs,
      Inr (store_prices
             (concat (map records_of (map (\<lambda>(j, b). post j b) (enumerate k bs))))
             prices_data))"
  using assms
proof (induction bs arbitrary: k sent prices_data)
  case Nil
  show ?case by (simp add: store_prices_def)
next
  case (Cons b bs)
  from Cons.prems have rest:
    "\<forall>r \<in> set (map (\<lambda>(j, b). post j b) (enumerate (Suc k) bs)). \<not> raises r"
    and here: "\<not> raises (post k b)"
    by simp_all
  from here obtain status_code price_items where reply: "post k b = Reply status_code price_items"
    by (cases "post k b") simp_all
  show ?case
    using Cons.IH [OF rest] reply
    by (simp add: store_prices_append [symmetric] del: map_map)
qed

lemma prices_loop_raise:
  assumes "\<exists>r \<in> set (map (\<lambda>(j, b). post j b) (enumerate k bs)). raises r"
  shows "\<exists>e. snd (prices_loop post k bs sent prices_data) = Inl e"
  using assms
proof (induction bs arbitrary: k sent prices_data)
  case Nil
  then show ?case by simp
next
  case (Cons b bs)
  show ?case
  proof (cases "post k b")
    case (Raise e)
    then show ?thesis by simp
  next
    case (Reply status_code price_items)
    with Cons.prems have
      "\<exists>r \<in> set (map (\<lambda>(j, b). post j b) (enumerate (Suc k) bs)). raises r"
      by simp
    from Cons.IH [OF this] Reply show ?thesis by simp
  qed
qed

lemma get_prices_no_raise:
  assumes "\<forall>r \<in> set (batch_replies post product_ids). \<not> raises r"
  shows "get_products_prices_v5 post product_ids =
     (batches_from 0 product_ids,
      store_prices (concat (map records_of (batch_replies post product_ids))) [])"
proof (cases "product_ids = []")
  case True
  then have "batches_from 0 product_ids = []"
    by (subst batches_from.simps) simp
  with True show ?thesis
    by (simp add: get_products_prices_v5_def batch_replies_def store_prices_def)
next
  case False
  with prices_loop_no_raise [OF assms [unfolded batch_replies_def], of "[]" "[]"]
  show ?thesis
    by (simp add: get_products_prices_v5_def batch_replies_def del: map_map)
qed

lemma get_prices_raise:
  assumes "\<exists>r \<in> set (batch_replies post product_ids). raises r"
  shows "snd (get_products_prices_v5 post product_ids) = []"
proof (cases "product_ids = []")
  case True
  then show ?thesis by (simp add: get_products_prices_v5_def)
next
  case False
  from prices_loop_raise [OF assms [unfolded batch_replies_def], of "[]" "[]"]
  obtain e where "snd (prices_loop post 0 (batches_from 0 product_ids) [] []) = Inl e" ..
  with False show ?thesis
    by (cases "prices_loop post 0 (batches_from 0 product_ids) [] []")
       (simp add: get_products_prices_v5_def)
qed

lemma rejecting_replies_51:
  "batch_replies rejecting_prices ids_51 =
     [Reply 200 [\<lparr>pi_product_id = Some 1, pi_price = PriceInfo (PNum 250) PNone\<rparr>],
      Reply 500 []]"
  by (simp add: batch_replies_def batches_of_51 rejecting_prices_def)

lemma flaky_replies_51:
  "batch_replies flaky_prices ids_51 = [Reply 200 [first_record], Raise Timeout]"
  by (simp add: batch_replies_def batches_of_51 flaky_prices_def)

lemma length_ids_120: "length ids_120 = 120"
  by (simp add: ids_120_def)

lemma broken_replies_120:
  "batch_replies broken_third ids_120 =
     [Reply 200 [first_record], Reply 200 [], Raise ConnectionError]"
  by (simp add: batch_replies_def batches_of_120 [OF length_ids_120] broken_third_def)

text \<open>
  C3, as the code has it. The call always returns a mapping. When no request raises,
  the mapping is built from the records of the batches answered with status 200, in
  the order of the batches, and a batch answered with another status adds nothing.
  When a request raises, as on a timeout or a connection error, the call returns
  the empty mapping.
\<close>

theorem prices_partial_results:
  "((\<forall>r \<in> set (batch_replies post product_ids). \<not> raises r) \<longrightarrow>
      snd (get_products_prices_v5 post product_ids) =
        store_prices (concat (map records_of (batch_replies post product_ids))) []) \<and>
   ((\<exists>r \<in> set (batch_replies post product_ids). raises r) \<longrightarrow>
      snd (get_products_prices_v5 post product_ids) = [])"
  by (simp add: get_prices_no_raise get_prices_raise)

theorem prices_partial_results_witness:
  "batch_replies rejecting_prices ids_51 =
     [Reply 200 [\<lparr>pi_product_id = Some 1, pi_price = PriceInfo (PNum 250) PNone\<rparr>],
      Reply 500 []] \<and>
   snd (get_products_prices_v5 rejecting_prices ids_51) =
     [(Some 1, \<lparr>pi_product_id = Some 1, pi_price = PriceInfo (PNum 250) PNone\<rparr>)] \<and>
   batch_replies flaky_prices ids_51 = [Reply 200 [first_record], Raise Timeout] \<and>
   snd (get_products_prices_v5 flaky_prices ids_51) = []"
proof -
  have quiet: "\<forall>r \<in> set (batch_replies rejecting_prices ids_51). \<not> raises r"
    by (simp add: rejecting_replies_51)
  have loud: "\<exists>r \<in> set (batch_replies flaky_prices ids_51). raises r"
    by (simp add: flaky_replies_51)
  have "store_prices (concat (map records_of (batch_replies rejecting_prices ids_51))) [] =
      [(Some 1, \<lparr>pi_product_id = Some 1, pi_price = PriceInfo (PNum 250) PNone\<rparr>)]"
    by (simp add: rejecting_replies_51 store_prices_def)
  with quiet loud prices_partial_results [of rejecting_prices ids_51]
    prices_partial_results [of flaky_prices ids_51]
  show ?thesis
    by (simp add: rejecting_replies_51 flaky_replies_51)
qed

text \<open>
  The claim C3 as it is written fails: the first of two batches is answered with a
  record, the second request times out, and the mapping returned is empty.
\<close>

theorem timeout_discards_earlier_batches:
  "batch_replies flaky_prices ids_51 = [Reply 200 [first_record], Raise Timeout] \<and>
   fst (get_products_prices_v5 flaky_prices ids_51) = [replicate 50 1, [2]] \<and>
   snd (get_products_prices_v5 flaky_prices ids_51) = []"
proof -
  have "ids_51 \<noteq> []"
    by (simp add: ids_51_def)
  then show ?thesis
    by (simp add: flaky_replies_51 get_products_prices_v5_def batches_of_51 flaky_prices_def)
qed

text \<open>
  C9, as the code has it. The batches are consecutive slices of the identifiers, none
  empty and none longer than 50; 120 identifiers make three batches of 50, 50 and 20.
  When no request raises, exactly these batches are posted, in order, and the mapping
  returned has an entry for every identifier for which a batch answered with status
  200 returned a record.
\<close>

theorem prices_batching:
  "concat (batches_from 0 product_ids) = product_ids \<and>
   (\<forall>batch_ids \<in> set (batches_from 0 product_ids).
      batch_ids \<noteq> [] \<and> length batch_ids \<le> 50) \<and>
   (length product_ids = 120 \<longrightarrow>
      map length (batches_from 0 product_ids) = [50, 50, 20]) \<and>
   ((\<forall>r \<in> set (batch_replies post product_ids). \<not> raises r) \<longrightarrow>
      fst (get_products_prices_v5 post product_ids) = batches_from 0 product_ids \<and>
      (\<forall>r \<in> set (batch_replies post product_ids). \<forall>price_item \<in> set (records_of r).
         pi_product_id price_item
           \<in> fst ` set (snd (get_products_prices_v5 post product_ids))))"
proof (intro conjI impI ballI)
  show "concat (batches_from 0 product_ids) = product_ids"
    by (simp add: concat_batches_from)
next
  fix batch_ids
  assume "batch_ids \<in> set (batches_from 0 product_ids)"
  then have "batch_ids \<noteq> [] \<and> length batch_ids \<le> 50"
    by (rule batches_from_bound)
  then show "batch_ids \<noteq> []" and "length batch_ids \<le> 50"
    by simp_all
next
  assume "length product_ids = 120"
  then show "map length (batches_from 0 product_ids) = [50, 50, 20]"
    by (simp add: batches_of_120)
next
  assume "\<forall>r \<in> set (batch_replies post product_ids). \<not> raises r"
  then show "fst (get_products_prices_v5 post product_ids) = batches_from 0 product_ids"
    by (simp add: get_prices_no_raise)
next
  fix r price_item
  assume "\<forall>r \<in> set (batch_replies post product_ids). \<not> raises r"
    and "r \<in> set (batch_replies post product_ids)"
    and "price_item \<in> set (records_of r)"
  then show "pi_product_id price_item
      \<in> fst ` set (snd (get_products_prices_v5 post product_ids))"
    by (auto simp: get_prices_no_raise store_prices_keys)
qed

theorem prices_batching_witness:
  "length ids_120 = 120 \<and>
   map raises (batch_replies rejecting_prices ids_120) = [False, False, False] \<and>
   concat (batches_from 0 ids_120) = ids_120 \<and>
   map length (batches_from 0 ids_120) = [50, 50, 20] \<and>
   fst (get_products_prices_v5 rejecting_prices ids_120) = batches_from 0 ids_120"
proof -
  have replies: "map raises (batch_replies rejecting_prices ids_120) = [False, False, False]"
    by (simp add: batch_replies_def batches_of_120 [OF length_ids_120] rejecting_prices_def)
  have "set (map raises (batch_replies rejecting_prices ids_120)) = {False}"
    by (simp only: replies) simp
  then have quiet: "\<forall>r \<in> set (batch_replies rejecting_prices ids_120). \<not> raises r"
    by auto
  from prices_batching [of ids_120 rejecting_prices] quiet length_ids_120 replies
  show ?thesis by blast
qed

text \<open>
  The claim C9 as it is written fails: of the three batches of 120 identifiers the
  first is answered with a record for the identifier 1, the third request fails with
  a connection error, and the mapping returned has no entry for 1.
\<close>

theorem connection_error_loses_entries:
  "length ids_120 = 120 \<and>
   batch_replies broken_third ids_120 =
     [Reply 200 [first_record], Reply 200 [], Raise ConnectionError] \<and>
   pi_product_id first_record = Some 1 \<and>
   map_of (snd (get_products_prices_v5 broken_third ids_120)) (Some 1) = None"
proof -
  have "\<exists>r \<in> set (batch_replies broken_third ids_120). raises r"
    by (simp add: broken_replies_120)
  then have "snd (get_products_prices_v5 broken_third ids_120) = []"
    by (rule get_prices_raise)
  then show ?thesis
    by (simp add: length_ids_120 broken_replies_120 first_record_def)
qed

section \<open>Descriptions\<close>

lemma truncate_description_length: "length (truncate_description d) \<le> 200"
  by (simp add: truncate_description_def)

lemma make_product_description:
  assumes "make_product prices_data descriptions_data item = Some p"
  shows "p_description p =
     (if raw_description descriptions_data (p_product_id p) = [] then p_name p
      else truncate_description
             (clean_description (raw_description descriptions_data (p_product_id p))))"
  using assms
  by (auto simp: make_product_def make_product_body_def raw_description_def Let_def
      split: option.splits if_splits sum.splits description_value.splits)

lemma re_sub_no_match:
  "(\<And>c cs. c \<in> set s \<Longrightarrow> m (c # cs) = None) \<Longrightarrow> re_sub m rep s = s"
  by (induction s) simp_all

lemma clean_description_plain:
  assumes "\<forall>c \<in> set s. c \<noteq> 60 \<and> c \<noteq> 10 \<and> \<not> is_space c"
  shows "clean_description s = s"
proof -
  have br: "re_sub match_br [10] s = s"
    using assms by (intro re_sub_no_match) (auto simp: match_br_def split: list.splits)
  have tag: "re_sub match_tag [] s = s"
    using assms by (intro re_sub_no_match) (auto simp: match_tag_def)
  have blank: "re_sub match_blank [10] s = s"
    using assms by (intro re_sub_no_match) (auto simp: match_blank_def)
  have left: "dropWhile is_space (rev s) = rev s"
    using assms by (cases "rev s") (auto simp: dropWhile_eq_self_iff)
  have right: "dropWhile is_space s = s"
    using assms by (cases s) (auto simp: dropWhile_eq_self_iff)
  show ?thesis
    by (simp add: clean_description_def br tag blank strip_def left right)
qed

lemma clean_letters: "clean_description (replicate 250 65) = replicate 250 65"
  by (rule clean_description_plain) (simp add: is_space_def)

lemma single_batch: "batches_from 0 [x] = [[x]]"
proof -
  have "batches_from 50 [x] = []"
    by (subst batches_from.simps) simp
  then show ?thesis
    by (subst batches_from.simps) simp
qed

lemma long_name_snapshot:
  "load_real_products long_name_world c =
     [(1, \<lparr>p_product_id = 5, p_offer_id = Some [65], p_name = long_name, p_price = 100,
            p_description = long_name, p_quantity = 10\<rparr>)]"
proof -
  have full: "long_name \<noteq> []"
    by (simp add: long_name_def)
  have "get_products_with_prices long_name_world 20 =
      Some [\<lparr>p_product_id = 5, p_offer_id = Some [65], p_name = long_name, p_price = 100,
              p_description = long_name, p_quantity = 10\<rparr>]"
    by (simp add: get_products_with_prices_def long_name_world_def product_ids_of_def
        get_products_prices_v5_def single_batch store_prices_def
        get_products_descriptions_v1_def map_filter_simps make_product_def
        make_product_body_def Let_def
        extract_price_from_v5_def price_from_def usable_price_def py_int_numeral)
  then show ?thesis by (simp add: load_real_products_eq)
qed

lemma wordy_listing:
  "list_reply wordy_world 20 = Reply 200 [\<lparr>li_product_id = Some 6, li_offer_id = Some [66]\<rparr>]"
  by (simp add: wordy_world_def)

lemma wordy_raw:
  "raw_description
     (descriptions_for wordy_world [\<lparr>li_product_id = Some 6, li_offer_id = Some [66]\<rparr>]) 6
     = replicate 250 65"
  by (simp add: raw_description_def descriptions_for_def product_ids_of_def
      get_products_descriptions_v1_def wordy_world_def)

lemma wordy_snapshot:
  "load_real_products wordy_world c =
     [(1, \<lparr>p_product_id = 6, p_offer_id = Some [66], p_name = [87], p_price = 300,
            p_description = replicate 197 65 @ [46, 46, 46], p_quantity = 10\<rparr>)]"
proof -
  have "get_products_with_prices wordy_world 20 =
      Some [\<lparr>p_product_id = 6, p_offer_id = Some [66], p_name = [87], p_price = 300,
              p_description = replicate 197 65 @ [46, 46, 46], p_quantity = 10\<rparr>]"
    by (simp add: get_products_with_prices_def wordy_world_def product_ids_of_def
        get_products_prices_v5_def single_batch store_prices_def
        get_products_descriptions_v1_def map_filter_simps make_product_def
        make_product_body_def Let_def
        extract_price_from_v5_def price_from_def usable_price_def py_int_numeral
        clean_letters truncate_description_def)
  then show ?thesis by (simp add: load_real_products_eq)
qed

lemma shop_raw:
  "raw_description (descriptions_for shop_world shop_items) 101 =
     [60, 112, 62, 72, 105, 60, 47, 112, 62]"
  "raw_description (descriptions_for shop_world shop_items) 103 = []"
  by (simp_all add: raw_description_def shop_descriptions_for)

lemma shop_cleaned: "clean_description [60, 112, 62, 72, 105, 60, 47, 112, 62] = [72, 105]"
  by (simp add: clean_description_def match_br_def match_tag_def match_blank_def strip_def
      is_space_def)

text \<open>
  C4, as the code has it. A product of a snapshot whose source has no description
  text carries its display name as description, whatever the length of the name. A
  product whose source has description text carries the sanitized text when that has
  at most 200 characters, and otherwise its first 197 characters followed by three
  dots; in both cases at most 200 characters.
\<close>

theorem snapshot_descriptions:
  assumes "list_reply w 20 = Reply 200 items"
    and "(k, p) \<in> set (load_real_products w c)"
  shows "(raw_description (descriptions_for w items) (p_product_id p) = [] \<longrightarrow>
            p_description p = p_name p) \<and>
         (raw_description (descriptions_for w items) (p_product_id p) \<noteq> [] \<longrightarrow>
            length (p_description p) \<le> 200 \<and>
            (200 < length (clean_description
                             (raw_description (descriptions_for w items) (p_product_id p))) \<longrightarrow>
               p_description p =
                 take 197 (clean_description
                             (raw_description (descriptions_for w items) (p_product_id p)))
                 @ [46, 46, 46]) \<and>
            (length (clean_description
                       (raw_description (descriptions_for w items) (p_product_id p))) \<le> 200 \<longrightarrow>
               p_description p =
                 clean_description
                   (raw_description (descriptions_for w items) (p_product_id p))))"
proof -
  from assms(2) obtain items' item where "list_reply w 20 = Reply 200 items'"
    and made: "make_product (prices_for w items') (descriptions_for w items') item = Some p"
    by (rule snapshot_memberD)
  with assms(1) have "items' = items" by simp
  with made have "make_product (prices_for w items) (descriptions_for w items) item = Some p"
    by simp
  then have "p_description p =
     (if raw_description (descriptions_for w items) (p_product_id p) = [] then p_name p
      else truncate_description
             (clean_description
                (raw_description (descriptions_for w items) (p_product_id p))))"
    by (rule make_product_description)
  then show ?thesis
    by (simp add: truncate_description_def)
qed

theorem snapshot_descriptions_witness:
  "raw_description (descriptions_for shop_world shop_items) (p_product_id shop_product_2) = [] \<and>
   p_description shop_product_2 = p_name shop_product_2 \<and>
   p_description shop_product_1 = [72, 105] \<and>
   raw_description
     (descriptions_for wordy_world [\<lparr>li_product_id = Some 6, li_offer_id = Some [66]\<rparr>]) 6
     = replicate 250 65 \<and>
   map (\<lambda>e. length (p_description (snd e))) (load_real_products wordy_world []) = [200]"
proof -
  let ?wordy = "\<lparr>p_product_id = 6, p_offer_id = Some [66], p_name = [87], p_price = 300,
      p_description = replicate 197 65 @ [46, 46, 46], p_quantity = 10\<rparr>"
  have second: "(2, shop_product_2) \<in> set (load_real_products shop_world [])"
    and first: "(1, shop_product_1) \<in> set (load_real_products shop_world [])"
    by (simp_all add: shop_snapshot)
  have ids: "p_product_id shop_product_2 = 103" "p_product_id shop_product_1 = 101"
    by (simp_all add: shop_product_1_def shop_product_2_def)
  have wordy: "(1, ?wordy) \<in> set (load_real_products wordy_world [])"
    by (simp add: wordy_snapshot)
  from snapshot_descriptions [OF shop_listing(2) second]
  have a: "p_description shop_product_2 = p_name shop_product_2"
    by (simp add: ids shop_raw)
  from snapshot_descriptions [OF shop_listing(2) first]
  have b: "p_description shop_product_1 = [72, 105]"
    by (simp add: ids shop_raw shop_cleaned)
  from snapshot_descriptions [OF wordy_listing wordy]
  have c: "length (p_description ?wordy) \<le> 200"
    by (simp add: wordy_raw)
  show ?thesis
    using a b by (simp add: ids shop_raw wordy_raw wordy_snapshot)
qed

text \<open>
  The claim C4 as it is written fails: the only product of this snapshot has no
  description text, so its description is its name, of 201 characters.
\<close>

theorem long_name_exceeds_limit:
  "load_real_products long_name_world [] =
     [(1, \<lparr>p_product_id = 5, p_offer_id = Some [65], p_name = long_name, p_price = 100,
            p_description = long_name, p_quantity = 10\<rparr>)] \<and>
   length long_name = 201"
  by (simp add: long_name_snapshot) (simp add: long_name_def)

section \<open>The size of the refreshed catalog and items without identifier\<close>

lemma refresh_count:
  "fst (snd (refresh_products_callback w c)) = length (load_real_products w c)"
  by (simp add: refresh_products_callback_def Let_def)

lemma snapshot_length:
  assumes "credentials w" and "list_reply w 20 = Reply 200 items"
  shows "length (load_real_products w c) =
     length (List.map_filter
               (make_product (prices_for w items) (descriptions_for w items)) items)"
proof -
  have "length (load_real_products w c) = length (map snd (load_real_products w c))"
    by simp
  then show ?thesis
    by (simp only: snapshot_products [OF assms])
qed

text \<open>
  C8, as the code has it. When the listing holds an item with an identifier other
  than 0, whose description on record, if there is one, is a string or a false value,
  and whose price resolves to a positive amount, the refresh reports a count of at
  least 1 and of at most the number of listed items.
\<close>

theorem refresh_count_bounds:
  assumes "credentials w" and "list_reply w 20 = Reply 200 items"
    and "item \<in> set items" and "li_product_id item = Some product_id"
    and "product_id \<noteq> 0"
    and "readable_description (descriptions_for w items) product_id"
    and "0 < extract_price_from_v5 (map_of (prices_for w items) (Some product_id))"
  shows "1 \<le> fst (snd (refresh_products_callback w c)) \<and>
         fst (snd (refresh_products_callback w c)) \<le> length items"
proof -
  let ?make = "make_product (prices_for w items) (descriptions_for w items)"
  have "?make item \<noteq> None"
    using assms(4-7) by (simp add: make_product_None_iff)
  then obtain p where "?make item = Some p" by auto
  with assms(3) have "p \<in> set (List.map_filter ?make items)"
    by (auto simp: map_filter_set)
  then have "List.map_filter ?make items \<noteq> []" by auto
  then have "1 \<le> length (List.map_filter ?make items)"
    by (cases "List.map_filter ?make items") simp_all
  moreover have "length (List.map_filter ?make items) \<le> length items"
    by (rule map_filter_length)
  ultimately show ?thesis
    by (simp add: refresh_count snapshot_length [OF assms(1,2)])
qed

theorem refresh_count_bounds_witness:
  "credentials shop_world \<and> list_reply shop_world 20 = Reply 200 shop_items \<and>
   readable_description (descriptions_for shop_world shop_items) 101 \<and>
   extract_price_from_v5 (map_of (prices_for shop_world shop_items) (Some 101)) = 150000 \<and>
   length shop_items = 4 \<and>
   1 \<le> fst (snd (refresh_products_callback shop_world [])) \<and>
   fst (snd (refresh_products_callback shop_world [])) \<le> 4"
proof -
  have listed: "\<lparr>li_product_id = Some 101, li_offer_id = Some [65]\<rparr> \<in> set shop_items"
    by (simp add: shop_items_def)
  have readable: "readable_description (descriptions_for shop_world shop_items) 101"
    by (simp add: readable_description_def shop_descriptions_for)
  have priced: "extract_price_from_v5
      (map_of (prices_for shop_world shop_items) (Some 101)) = 150000"
    by (simp add: shop_prices_for extract_price_from_v5_def price_from_def usable_price_def
        py_int_numeral)
  have size: "length shop_items = 4"
    by (simp add: shop_items_def)
  from refresh_count_bounds [OF shop_listing listed, of 101 "[]"] readable priced size
    shop_listing
  show ?thesis by simp
qed

text \<open>
  The claim C8 as it is written fails: the only listed item has the identifier 0 and
  its price record resolves to 100, yet the refresh leaves an empty catalog.
\<close>

theorem zero_identifier_is_skipped:
  "list_reply zero_id_world 20 = Reply 200 [\<lparr>li_product_id = Some 0, li_offer_id = Some [65]\<rparr>] \<and>
   extract_price_from_v5
     (map_of (prices_for zero_id_world [\<lparr>li_product_id = Some 0, li_offer_id = Some [65]\<rparr>])
        (Some 0)) = 100 \<and>
   refresh_products_callback zero_id_world [] = (0, 0, [])"
proof -
  have "get_products_with_prices zero_id_world 20 = Some []"
    by (simp add: get_products_with_prices_def zero_id_world_def product_ids_of_def
        map_filter_simps make_product_def make_product_body_def Let_def)
  then have "load_real_products zero_id_world [] = []"
    by (simp add: load_real_products_eq)
  then show ?thesis
    by (simp add: refresh_products_callback_def)
       (simp add: zero_id_world_def prices_for_def product_ids_of_def
        get_products_prices_v5_def single_batch store_prices_def extract_price_from_v5_def
        price_from_def usable_price_def py_int_numeral)
qed

text \<open>
  The condition on the description is needed as well: the only listed item has the
  identifier 7 and a price that resolves to 100, its description record holds a
  number, the sanitizer raises on it, the item is skipped and the catalog is empty.
\<close>

lemma unreadable_description_is_skipped:
  "extract_price_from_v5
     (map_of (prices_for numeric_description_world
                [\<lparr>li_product_id = Some 7, li_offer_id = Some [65]\<rparr>]) (Some 7)) = 100 \<and>
   make_product_body
     (prices_for numeric_description_world [\<lparr>li_product_id = Some 7, li_offer_id = Some [65]\<rparr>])
     (descriptions_for numeric_description_world
        [\<lparr>li_product_id = Some 7, li_offer_id = Some [65]\<rparr>])
     \<lparr>li_product_id = Some 7, li_offer_id = Some [65]\<rparr> = Inl OtherError \<and>
   refresh_products_callback numeric_description_world [] = (0, 0, [])"
proof -
  have prices: "prices_for numeric_description_world
      [\<lparr>li_product_id = Some 7, li_offer_id = Some [65]\<rparr>] =
      [(Some 7, \<lparr>pi_product_id = Some 7, pi_price = PriceInfo (PNum 100) PNone\<rparr>)]"
    by (simp add: numeric_description_world_def prices_for_def product_ids_of_def
        get_products_prices_v5_def single_batch store_prices_def)
  have descriptions: "descriptions_for numeric_description_world
      [\<lparr>li_product_id = Some 7, li_offer_id = Some [65]\<rparr>] =
      [(7, \<lparr>d_name = [78], d_description = DOther\<rparr>)]"
    by (simp add: numeric_description_world_def descriptions_for_def product_ids_of_def
        get_products_descriptions_v1_def)
  have "credentials numeric_description_world"
    and "list_reply numeric_description_world 20 =
      Reply 200 [\<lparr>li_product_id = Some 7, li_offer_id = Some [65]\<rparr>]"
    by (simp_all add: numeric_description_world_def)
  then have "get_products_with_prices numeric_description_world 20 = Some []"
    by (simp add: get_products_eq prices descriptions product_ids_of_def map_filter_simps
        make_product_def make_product_body_def Let_def)
  then have "load_real_products numeric_description_world [] = []"
    by (simp add: load_real_products_eq)
  then show ?thesis
    by (simp add: refresh_products_callback_def prices descriptions make_product_body_def
        extract_price_from_v5_def price_from_def usable_price_def py_int_numeral)
qed

lemma product_ids_of_filter: "product_ids_of (filter has_id items) = product_ids_of items"
  by (simp add: product_ids_of_def has_id_def)

lemma make_product_no_id: "\<not> has_id item \<Longrightarrow> make_product pd dd item = None"
  by (simp add: has_id_def make_product_def make_product_body_def)

lemma map_filter_has_id:
  "List.map_filter (make_product pd dd) (filter has_id items) =
   List.map_filter (make_product pd dd) items"
  by (induction items) (auto simp: map_filter_simps make_product_no_id split: option.splits)

lemma product_ids_empty_iff: "product_ids_of items = [] \<longleftrightarrow> filter has_id items = []"
  by (simp add: product_ids_of_def filter_empty_conv has_id_def)

lemma with_listing_simps:
  "credentials (with_listing w r) = credentials w"
  "list_reply (with_listing w r) limit = r"
  "prices_reply (with_listing w r) = prices_reply w"
  "descr_reply (with_listing w r) = descr_reply w"
  by (simp_all add: with_listing_def)

lemma listing_without_ids:
  assumes "list_reply w 20 = Reply 200 items"
  shows "load_real_products (with_listing w (Reply 200 (filter has_id items))) c =
         load_real_products w c"
proof (cases "credentials w")
  case False
  then show ?thesis
    by (simp add: load_real_products_def with_listing_simps)
next
  case True
  let ?w = "with_listing w (Reply 200 (filter has_id items))"
  have "credentials ?w" and "list_reply ?w 20 = Reply 200 (filter has_id items)"
    using True by (simp_all add: with_listing_simps)
  then have "get_products_with_prices ?w 20 =
     (if filter has_id items = [] \<or> product_ids_of (filter has_id items) = [] then None
      else Some (List.map_filter
                   (make_product (prices_for ?w (filter has_id items))
                      (descriptions_for ?w (filter has_id items)))
                   (filter has_id items)))"
    by (rule get_products_eq)
  also have "\<dots> =
     (if items = [] \<or> product_ids_of items = [] then None
      else Some (List.map_filter
                   (make_product (prices_for w items) (descriptions_for w items)) items))"
    by (auto simp: product_ids_of_filter product_ids_empty_iff with_listing_simps
        prices_for_def descriptions_for_def map_filter_has_id)
  also have "\<dots> = get_products_with_prices w 20"
    using True assms by (rule get_products_eq [symmetric])
  finally show ?thesis
    by (simp add: load_real_products_eq)
qed

text \<open>
  C10. A listed item without identifier takes no part in the refresh: its identifier
  is not among those sent to the price and description lookups, it yields no
  product, and the refresh gives the same cache as for the listing without such
  items. When no listed item has an identifier the cache is empty, as it is when the
  listing call fails.
\<close>

theorem items_without_identifier_ignored:
  "product_ids_of items = product_ids_of (filter has_id items) \<and>
   (\<not> has_id item \<longrightarrow> make_product prices_data descriptions_data item = None) \<and>
   (list_reply w 20 = Reply 200 items \<longrightarrow>
      load_real_products w c =
        load_real_products (with_listing w (Reply 200 (filter has_id items))) c) \<and>
   (list_reply w 20 = Reply 200 items \<and> (\<forall>item \<in> set items. \<not> has_id item) \<longrightarrow>
      load_real_products w c = [] \<and>
      load_real_products w c = load_real_products (with_listing w (Raise e)) c)"
proof (intro conjI impI)
  show "product_ids_of items = product_ids_of (filter has_id items)"
    by (simp add: product_ids_of_filter)
next
  assume "\<not> has_id item"
  then show "make_product prices_data descriptions_data item = None"
    by (rule make_product_no_id)
next
  assume "list_reply w 20 = Reply 200 items"
  then show "load_real_products w c =
      load_real_products (with_listing w (Reply 200 (filter has_id items))) c"
    by (simp add: listing_without_ids)
next
  assume a: "list_reply w 20 = Reply 200 items \<and> (\<forall>item \<in> set items. \<not> has_id item)"
  then have "product_ids_of items = []"
    by (simp add: product_ids_empty_iff filter_empty_conv)
  with a have "get_products_with_prices w 20 = None"
    by (simp add: get_products_with_prices_def Let_def)
  then show empty: "load_real_products w c = []"
    by (simp add: load_real_products_eq)
  have "get_products_with_prices (with_listing w (Raise e)) 20 = None"
    by (simp add: get_products_with_prices_def with_listing_simps)
  then have "load_real_products (with_listing w (Raise e)) c = []"
    by (simp add: load_real_products_eq)
  with empty show "load_real_products w c = load_real_products (with_listing w (Raise e)) c"
    by simp
qed

theorem items_without_identifier_ignored_witness:
  "list_reply shop_world 20 = Reply 200 shop_items \<and>
   product_ids_of shop_items = [101, 102, 103] \<and>
   map has_id shop_items = [True, True, False, True] \<and>
   load_real_products (with_listing shop_world (Reply 200 (filter has_id shop_items))) []
     = [(1, shop_product_1), (2, shop_product_2)] \<and>
   list_reply (with_listing shop_world (Reply 200 anonymous_items)) 20
     = Reply 200 anonymous_items \<and>
   map has_id anonymous_items = [False] \<and>
   load_real_products (with_listing shop_world (Reply 200 anonymous_items))
     [(1, shop_product_1)] = [] \<and>
   load_real_products (with_listing (with_listing shop_world (Reply 200 anonymous_items))
     (Raise Timeout)) [(1, shop_product_1)] = []"
proof -
  let ?anon = "with_listing shop_world (Reply 200 anonymous_items)"
  have flags: "map has_id shop_items = [True, True, False, True]"
    "map has_id anonymous_items = [False]"
    by (simp_all add: shop_items_def anonymous_items_def has_id_def)
  have anon: "list_reply ?anon 20 = Reply 200 anonymous_items"
    by (simp add: with_listing_simps)
  have none: "\<forall>item \<in> set anonymous_items. \<not> has_id item"
    by (simp add: anonymous_items_def has_id_def)
  note shop = items_without_identifier_ignored
    [of shop_items "\<lparr>li_product_id = None, li_offer_id = Some [68]\<rparr>" "[]" "[]"
       shop_world "[]" Timeout]
  note bare = items_without_identifier_ignored
    [of anonymous_items "\<lparr>li_product_id = None, li_offer_id = Some [68]\<rparr>" "[]" "[]"
       ?anon "[(1, shop_product_1)]" Timeout]
  from shop shop_listing(2)
  have "load_real_products shop_world [] =
      load_real_products (with_listing shop_world (Reply 200 (filter has_id shop_items))) []"
    by blast
  then have same: "load_real_products
      (with_listing shop_world (Reply 200 (filter has_id shop_items))) []
     = [(1, shop_product_1), (2, shop_product_2)]"
    by (simp add: shop_snapshot)
  from bare anon none
  have empty: "load_real_products ?anon [(1, shop_product_1)] = []"
    by blast
  from bare anon none
  have "load_real_products ?anon [(1, shop_product_1)] =
      load_real_products (with_listing ?anon (Raise Timeout)) [(1, shop_product_1)]"
    by blast
  with empty have failed:
    "load_real_products (with_listing ?anon (Raise Timeout)) [(1, shop_product_1)] = []"
    by simp
  show ?thesis
    using shop_listing(2) shop_product_ids flags anon same empty failed by simp
qed

end
